theory Spec2Isabelle
  imports Main
begin

section \<open>Regular expressions as the parser uses them\<close>

text \<open>
  The block parser of \<^verbatim>\<open>src/mistune3/block_parser.py\<close> is driven by Python's
  \<^verbatim>\<open>re\<close> module. Its patterns are embedded as syntax trees, one constructor per
  construct that occurs in the file, and run by a backtracking matcher that returns every
  way to match in Python's order of preference: the head of the list is the match Python
  reports. Strings are lists of characters (code points below 256).
\<close>

text \<open>
  A configuration of the matcher: the character before the position (none at the start of
  the string), the position, the rest of the string, and the groups closed so far, the
  most recently closed first.
\<close>

type_synonym caps = "(nat \<times> string) list"
type_synonym cfg = "char option \<times> nat \<times> string \<times> caps"

text \<open>
  \<open>Opaque f\<close> is a fragment of a pattern that is known only by what it matches: \<open>f\<close>
  gives, for a configuration, the configurations behind every way to match the fragment,
  in the order of preference. It stands for the fragments that the file imports
  (\<^verbatim>\<open>LINK_LABEL\<close>, \<^verbatim>\<open>HTML_TAGNAME\<close>, \<^verbatim>\<open>HTML_ATTRIBUTES\<close>), which are taken to have no
  capturing group of their own.
\<close>

datatype regex =
    Eps
  | Opaque "cfg \<Rightarrow> cfg list"
  | Cls "char list"                      \<comment> \<open>\<^verbatim>\<open>[...]\<close>, one character of the list\<close>
  | NCls "char list"                     \<comment> \<open>\<^verbatim>\<open>[^...]\<close>, one character not in the list\<close>
  | Bol                                  \<comment> \<open>\<^verbatim>\<open>^\<close> under \<^verbatim>\<open>re.M\<close>\<close>
  | Eol                                  \<comment> \<open>\<^verbatim>\<open>$\<close> under \<^verbatim>\<open>re.M\<close>\<close>
  | Sos                                  \<comment> \<open>\<^verbatim>\<open>^\<close> without \<^verbatim>\<open>re.M\<close>\<close>
  | Eos                                  \<comment> \<open>\<^verbatim>\<open>$\<close> without \<^verbatim>\<open>re.M\<close>\<close>
  | Seq regex regex
  | Alt regex regex
  | Rep bool nat "nat option" regex      \<comment> \<open>greedy?, minimum, maximum, body\<close>
  | Grp nat "string option" regex        \<comment> \<open>capturing group: index, name\<close>
  | NLook regex                          \<comment> \<open>\<^verbatim>\<open>(?!...)\<close>\<close>

definition cfg_pos :: "cfg \<Rightarrow> nat" where
  "cfg_pos c = fst (snd c)"

definition nl :: char where
  "nl = CHR 0x0A"

definition tab :: char where
  "tab = CHR 0x09"

text \<open>
  Repetition. The fuel is the number of iterations still possible; every iteration kept
  consumes at least one character (no repeated body in the file matches the empty string),
  so one more than the length of the rest is never used up.
\<close>

fun rep :: "nat \<Rightarrow> bool \<Rightarrow> nat \<Rightarrow> nat option \<Rightarrow> (cfg \<Rightarrow> cfg list) \<Rightarrow> cfg \<Rightarrow> cfg list" where
  "rep 0 g mn mx step c = (if mn = 0 then [c] else [])"
| "rep (Suc f) g mn mx step c =
     (let more = (if mx = Some 0 then []
                  else concat (map (rep f g (mn - 1) (map_option (\<lambda>k. k - 1) mx) step)
                                   (filter (\<lambda>c'. cfg_pos c < cfg_pos c') (step c))));
          stop = (if mn = 0 then [c] else [])
      in if g then more @ stop else stop @ more)"

primrec mtch :: "regex \<Rightarrow> cfg \<Rightarrow> cfg list" where
  "mtch Eps c = [c]"
| "mtch (Opaque f) c = f c"
| "mtch (Cls cs) c =
     (case c of (p, i, rest, k) \<Rightarrow>
        (case rest of [] \<Rightarrow> []
         | x # xs \<Rightarrow> if x \<in> set cs then [(Some x, Suc i, xs, k)] else []))"
| "mtch (NCls cs) c =
     (case c of (p, i, rest, k) \<Rightarrow>
        (case rest of [] \<Rightarrow> []
         | x # xs \<Rightarrow> if x \<notin> set cs then [(Some x, Suc i, xs, k)] else []))"
| "mtch Bol c =
     (case c of (p, i, rest, k) \<Rightarrow> if p = None \<or> p = Some nl then [c] else [])"
| "mtch Eol c =
     (case c of (p, i, rest, k) \<Rightarrow>
        (case rest of [] \<Rightarrow> [c] | x # xs \<Rightarrow> if x = nl then [c] else []))"
| "mtch Sos c =
     (case c of (p, i, rest, k) \<Rightarrow> if p = None then [c] else [])"
| "mtch Eos c =
     (case c of (p, i, rest, k) \<Rightarrow> if rest = [] \<or> rest = [nl] then [c] else [])"
| "mtch (Seq a b) c = concat (map (mtch b) (mtch a c))"
| "mtch (Alt a b) c = mtch a c @ mtch b c"
| "mtch (Rep g mn mx r) c = rep (Suc (length (fst (snd (snd c))))) g mn mx (mtch r) c"
| "mtch (Grp n nm r) c =
     (case c of (p, i, rest, k) \<Rightarrow>
        map (\<lambda>(p', j, rest', k'). (p', j, rest', (n, take (j - i) rest) # k')) (mtch r c))"
| "mtch (NLook r) c = (if mtch r c = [] then [c] else [])"

subsection \<open>Compiling, matching, searching, substituting\<close>

text \<open>
  Python numbers capturing groups by their opening parenthesis, from 1. The patterns below
  are written with index 0 everywhere and \<open>re_compile\<close> numbers them.
\<close>

fun number :: "nat \<Rightarrow> regex \<Rightarrow> regex \<times> nat" where
  "number n (Grp _ nm r) = (case number (Suc n) r of (r', n') \<Rightarrow> (Grp n nm r', n'))"
| "number n (Seq a b) =
     (case number n a of (a', n1) \<Rightarrow> (case number n1 b of (b', n2) \<Rightarrow> (Seq a' b', n2)))"
| "number n (Alt a b) =
     (case number n a of (a', n1) \<Rightarrow> (case number n1 b of (b', n2) \<Rightarrow> (Alt a' b', n2)))"
| "number n (Rep g mn mx r) = (case number n r of (r', n') \<Rightarrow> (Rep g mn mx r', n'))"
| "number n (NLook r) = (case number n r of (r', n') \<Rightarrow> (NLook r', n'))"
| "number n r = (r, n)"

definition re_compile :: "regex \<Rightarrow> regex" where
  "re_compile r = fst (number 1 r)"

text \<open>\<^verbatim>\<open>groupindex\<close>: the names of a compiled pattern's groups with their indices.\<close>

fun groupindex :: "regex \<Rightarrow> (string \<times> nat) list" where
  "groupindex (Grp n nm r) =
     (case nm of None \<Rightarrow> groupindex r | Some name \<Rightarrow> (name, n) # groupindex r)"
| "groupindex (Seq a b) = groupindex a @ groupindex b"
| "groupindex (Alt a b) = groupindex a @ groupindex b"
| "groupindex (Rep g mn mx r) = groupindex r"
| "groupindex (NLook r) = groupindex r"
| "groupindex r = []"

text \<open>\<^verbatim>\<open>pattern.groups\<close>: the number of capturing groups.\<close>

fun count_groups :: "regex \<Rightarrow> nat" where
  "count_groups (Grp n nm r) = Suc (count_groups r)"
| "count_groups (Seq a b) = count_groups a + count_groups b"
| "count_groups (Alt a b) = count_groups a + count_groups b"
| "count_groups (Rep g mn mx r) = count_groups r"
| "count_groups (NLook r) = count_groups r"
| "count_groups r = 0"

text \<open>
  Python's exceptions (\<open>ReError\<close> is \<^verbatim>\<open>re.error\<close>), and \<open>OutOfFuel\<close> for a run of the
  model that was cut short.
\<close>

datatype pyerr =
  AttributeError | NameError | TypeError | IndexError | KeyError | ValueError | ReError
  | OutOfFuel

text \<open>A match object: span, the groups that took part, and the pattern's group names.\<close>

record match =
  m_start :: nat
  m_end :: nat
  m_caps :: caps
  m_names :: "(string \<times> nat) list"
  m_groups :: nat

definition mk_match :: "regex \<Rightarrow> nat \<Rightarrow> cfg \<Rightarrow> match" where
  "mk_match r i c =
     \<lparr>m_start = i, m_end = cfg_pos c, m_caps = snd (snd (snd c)), m_names = groupindex r,
      m_groups = count_groups r\<rparr>"

text \<open>
  \<^verbatim>\<open>m.group(name)\<close>: IndexError for a name the pattern does not have, \<^verbatim>\<open>None\<close> for
  a group that took no part in the match, its text otherwise (of its last iteration).
\<close>

definition group :: "match \<Rightarrow> string \<Rightarrow> pyerr + string option" where
  "group m name =
     (case map_of (m_names m) name of
        None \<Rightarrow> Inl IndexError
      | Some n \<Rightarrow> Inr (map_of (m_caps m) n))"

text \<open>\<^verbatim>\<open>m.group(n)\<close> for a number: IndexError beyond the pattern's groups.\<close>

definition group_idx :: "match \<Rightarrow> nat \<Rightarrow> pyerr + string option" where
  "group_idx m n = (if m_groups m < n then Inl IndexError else Inr (map_of (m_caps m) n))"

text \<open>
  \<^verbatim>\<open>m.lastgroup\<close>: the name of the group that closed last (for one rule of the compiled
  alternation of rules, the rule's own group), \<^verbatim>\<open>None\<close> when it has no name.
\<close>

definition lastgroup :: "match \<Rightarrow> string option" where
  "lastgroup m =
     (case m_caps m of [] \<Rightarrow> None
      | (n, _) # _ \<Rightarrow> map_of (map (\<lambda>(name, i). (i, name)) (m_names m)) n)"

text \<open>
  The configuration at a position of a string. Python clips a position beyond the end.
\<close>

definition cfg_at :: "string \<Rightarrow> nat \<Rightarrow> cfg" where
  "cfg_at s pos =
     (let i = min pos (length s)
      in (if i = 0 then None else Some (s ! (i - 1)), i, drop i s, []))"

text \<open>\<^verbatim>\<open>pattern.match(s, pos)\<close>\<close>

definition re_match :: "regex \<Rightarrow> string \<Rightarrow> nat \<Rightarrow> match option" where
  "re_match r s pos =
     (case mtch r (cfg_at s pos) of [] \<Rightarrow> None
      | c # _ \<Rightarrow> Some (mk_match r (min pos (length s)) c))"

text \<open>\<^verbatim>\<open>pattern.search(s, pos)\<close>: the first position from \<open>pos\<close> on where the pattern matches.\<close>

fun search_from :: "regex \<Rightarrow> char option \<Rightarrow> nat \<Rightarrow> string \<Rightarrow> match option" where
  "search_from r p i [] =
     (case mtch r (p, i, [], []) of [] \<Rightarrow> None | c # _ \<Rightarrow> Some (mk_match r i c))"
| "search_from r p i (x # xs) =
     (case mtch r (p, i, x # xs, []) of
        [] \<Rightarrow> search_from r (Some x) (Suc i) xs
      | c # _ \<Rightarrow> Some (mk_match r i c))"

definition re_search :: "regex \<Rightarrow> string \<Rightarrow> nat \<Rightarrow> match option" where
  "re_search r s pos =
     (case cfg_at s pos of (p, i, rest, k) \<Rightarrow> search_from r p i rest)"

text \<open>
  \<^verbatim>\<open>pattern.sub('', s)\<close>: every match is removed, from left to right. An empty match
  removes nothing, and the scan moves on by one character.
\<close>

function sub_from :: "regex \<Rightarrow> char option \<Rightarrow> nat \<Rightarrow> string \<Rightarrow> string" where
  "sub_from r p i [] = []"
| "sub_from r p i (x # xs) =
     (case mtch r (p, i, x # xs, []) of
        [] \<Rightarrow> x # sub_from r (Some x) (Suc i) xs
      | c # _ \<Rightarrow>
          (let j = cfg_pos c
           in if i < j \<and> j \<le> Suc (i + length xs)
              then sub_from r (Some ((x # xs) ! (j - i - 1))) j (drop (j - i) (x # xs))
              else x # sub_from r (Some x) (Suc i) xs))"
  by pat_completeness auto
termination
  by (relation "measure (\<lambda>(r, p, i, s). length s)") auto

definition re_sub_empty :: "regex \<Rightarrow> string \<Rightarrow> string" where
  "re_sub_empty r s = sub_from r None 0 s"

subsection \<open>Building patterns\<close>

fun seqs :: "regex list \<Rightarrow> regex" where
  "seqs [] = Eps"
| "seqs [r] = r"
| "seqs (r # rs) = Seq r (seqs rs)"

text \<open>\<^verbatim>\<open>'|'.join(...)\<close> of patterns; the empty pattern matches the empty string.\<close>

fun alts :: "regex list \<Rightarrow> regex" where
  "alts [] = Eps"
| "alts [r] = r"
| "alts (r # rs) = Alt r (alts rs)"

definition lit :: "string \<Rightarrow> regex" where
  "lit s = seqs (map (\<lambda>c. Cls [c]) s)"

definition star :: "regex \<Rightarrow> regex" where
  "star r = Rep True 0 None r"

definition plus :: "regex \<Rightarrow> regex" where
  "plus r = Rep True 1 None r"

definition opt :: "regex \<Rightarrow> regex" where
  "opt r = Rep True 0 (Some 1) r"

text \<open>\<^verbatim>\<open>.\<close> (any character but the newline), and the classes of the file.\<close>

definition dot :: regex where
  "dot = NCls [nl]"

definition sp :: regex where
  "sp = Cls [CHR '' '']"

definition blank :: regex where
  "blank = Cls [CHR '' '', tab]"

text \<open>
  \<^verbatim>\<open>\s\<close> and \<^verbatim>\<open>str.strip()\<close>: Python's whitespace among the code points below 256.
\<close>

definition py_space :: "char list" where
  "py_space = [CHR '' '', tab, nl, CHR 0x0B, CHR 0x0C, CHR 0x0D,
               CHR 0x1C, CHR 0x1D, CHR 0x1E, CHR 0x1F, CHR 0x85, CHR 0xA0]"

definition digits :: "char list" where
  "digits = ''0123456789''"

definition upper_az :: "char list" where
  "upper_az = ''ABCDEFGHIJKLMNOPQRSTUVWXYZ''"

section \<open>What the file imports\<close>

text \<open>
  \<^verbatim>\<open>block_parser.py\<close> imports string helpers from \<^verbatim>\<open>util.py\<close> and \<^verbatim>\<open>helpers.py\<close>,
  which are not part of the sources at hand. The functions and pattern fragments about
  which the specification says nothing definite are parameters of the model: every
  definition below that uses them takes a record of them, and every theorem holds for all
  of them. The pattern fragments are spliced into larger patterns as text; they are taken
  to be patterns without an alternative at the top level and without a capturing group,
  and are given by what they match (\<open>Opaque\<close>).
\<close>

record ext =
  unikey :: "string \<Rightarrow> string"
  escape :: "string \<Rightarrow> string"
  escape_url :: "string \<Rightarrow> string"
  safe_entity :: "string \<Rightarrow> string"
  strip_end :: "string \<Rightarrow> string"
  unescape_char :: "string \<Rightarrow> string"
  parse_link_href :: "string \<Rightarrow> nat \<Rightarrow> (string \<times> nat) option"
  parse_link_title :: "string \<Rightarrow> nat \<Rightarrow> nat \<Rightarrow> string option \<times> nat option"
  LINK_LABEL :: "cfg \<Rightarrow> cfg list"
  HTML_TAGNAME :: "cfg \<Rightarrow> cfg list"
  HTML_ATTRIBUTES :: "cfg \<Rightarrow> cfg list"

text \<open>
  Modelled from the spec: \<^verbatim>\<open>PRE_TAGS\<close> of \<^verbatim>\<open>helpers.py\<close>, the four tags that open
  an HTML block of the first class (section 4.5 of the specification).
\<close>

definition PRE_TAGS :: "string list" where
  "PRE_TAGS = [''pre'', ''script'', ''style'', ''textarea'']"

text \<open>
  Modelled from the spec: \<^verbatim>\<open>BLOCK_TAGS\<close> of \<^verbatim>\<open>helpers.py\<close>, "the known set" of block
  tags of section 4.5, taken to be the tag names of CommonMark's sixth class of HTML
  blocks, the grammar the specification follows.
\<close>

definition BLOCK_TAGS :: "string list" where
  "BLOCK_TAGS =
     [''address'', ''article'', ''aside'', ''base'', ''basefont'', ''blockquote'', ''body'',
      ''caption'', ''center'', ''col'', ''colgroup'', ''dd'', ''details'', ''dialog'', ''dir'',
      ''div'', ''dl'', ''dt'', ''fieldset'', ''figcaption'', ''figure'', ''footer'', ''form'',
      ''frame'', ''frameset'', ''h1'', ''h2'', ''h3'', ''h4'', ''h5'', ''h6'', ''head'',
      ''header'', ''hr'', ''html'', ''iframe'', ''legend'', ''li'', ''link'', ''main'',
      ''menu'', ''menuitem'', ''meta'', ''nav'', ''noframes'', ''ol'', ''optgroup'',
      ''option'', ''p'', ''param'', ''section'', ''source'', ''summary'', ''table'',
      ''tbody'', ''td'', ''tfoot'', ''th'', ''thead'', ''title'', ''tr'', ''track'', ''ul'']"

text \<open>
  Modelled from the spec: \<^verbatim>\<open>expand_leading_tab(text, width)\<close> of \<^verbatim>\<open>util.py\<close>
  ("leading tabs are expanded to up to 3 spaces", section 4.3): on every line, a tab after
  at most three leading spaces is replaced by the spaces that fill the line's indentation
  up to \<open>width\<close>. \<open>expand_line f\<close> applies \<open>f\<close>, the number of spaces to put for the tab
  after \<open>k\<close> spaces, to one line.
\<close>

definition expand_line :: "(nat \<Rightarrow> nat) \<Rightarrow> string \<Rightarrow> string" where
  "expand_line f l =
     (let k = length (takeWhile (\<lambda>c. c = CHR '' '') l); r = drop k l
      in if k \<le> 3 \<and> r \<noteq> [] \<and> hd r = tab
         then replicate k (CHR '' '') @ replicate (f k) (CHR '' '') @ tl r
         else l)"

text \<open>\<^verbatim>\<open>s.split('\n')\<close> and \<^verbatim>\<open>'\n'.join(...)\<close>\<close>

fun split_nl :: "string \<Rightarrow> string list" where
  "split_nl [] = [[]]"
| "split_nl (x # xs) =
     (if x = nl then [] # split_nl xs
      else (case split_nl xs of [] \<Rightarrow> [[x]] | l # ls \<Rightarrow> (x # l) # ls))"

fun join_nl :: "string list \<Rightarrow> string" where
  "join_nl [] = []"
| "join_nl [l] = l"
| "join_nl (l # ls) = l @ nl # join_nl ls"

definition expand_leading_tab :: "string \<Rightarrow> nat \<Rightarrow> string" where
  "expand_leading_tab text width = join_nl (map (expand_line (\<lambda>k. width - k)) (split_nl text))"

text \<open>
  Modelled from the spec: \<^verbatim>\<open>expand_tab(text)\<close> of \<^verbatim>\<open>util.py\<close> ("a subsequent tab is
  expanded to 4 spaces", section 4.3): the same tab is replaced by four spaces.
\<close>

definition expand_tab :: "string \<Rightarrow> string" where
  "expand_tab text = join_nl (map (expand_line (\<lambda>k. 4)) (split_nl text))"

section \<open>The patterns of the parser\<close>

text \<open>\<^verbatim>\<open>BLANK_LINE = re.compile(r'(^[ \t\v\f]*\n)+', re.M)\<close>\<close>

definition blank_line_pattern :: regex where
  "blank_line_pattern =
     plus (Grp 0 None (seqs [Bol, star (Cls [CHR '' '', tab, CHR 0x0B, CHR 0x0C]), Cls [nl]]))"

definition BLANK_LINE :: regex where
  "BLANK_LINE = re_compile blank_line_pattern"

text \<open>\<^verbatim>\<open>STRICT_BLOCK_QUOTE = re.compile(r'( {0,3}>[^\n]*(?:\n|$))+')\<close>\<close>

definition STRICT_BLOCK_QUOTE :: regex where
  "STRICT_BLOCK_QUOTE =
     re_compile (plus (Grp 0 None
       (seqs [Rep True 0 (Some 3) sp, Cls ''>'', star (NCls [nl]), Alt (Cls [nl]) Eos])))"

text \<open>
  \<^verbatim>\<open>LIST = r'^(?P<list_1> {0,3})(?P<list_2>[\*\+-]|\d{1,9}[.)])(?P<list_3>[ \t]*|[ \t].+)$'\<close>
\<close>

definition LIST :: regex where
  "LIST =
     seqs [Bol,
           Grp 0 (Some ''list_1'') (Rep True 0 (Some 3) sp),
           Grp 0 (Some ''list_2'')
             (Alt (Cls ''*+-'') (Seq (Rep True 1 (Some 9) (Cls digits)) (Cls ''.)''))),
           Grp 0 (Some ''list_3'') (Alt (star blank) (Seq blank (plus dot))),
           Eol]"

text \<open>
  \<^verbatim>\<open>INDENT_CODE = r'(?: {4}| *\t)[^\n]+(?:\n+|$)((?:(?: {4}| *\t)[^\n]+(?:\n+|$))|\s)*'\<close>
\<close>

definition indent_line :: regex where
  "indent_line =
     seqs [Alt (Rep True 4 (Some 4) sp) (Seq (star sp) (Cls [tab])),
           plus (NCls [nl]),
           Alt (plus (Cls [nl])) Eol]"

definition INDENT_CODE :: regex where
  "INDENT_CODE = Seq indent_line (star (Grp 0 None (Alt indent_line (Cls py_space))))"

text \<open>
  \<^verbatim>\<open>FENCED_CODE = r'^(?P<fenced_1> {0,3})(?P<fenced_2>`{3,}|~{3,})[ \t]*(?P<fenced_3>.*?)$'\<close>
\<close>

definition FENCED_CODE :: regex where
  "FENCED_CODE =
     seqs [Bol,
           Grp 0 (Some ''fenced_1'') (Rep True 0 (Some 3) sp),
           Grp 0 (Some ''fenced_2'')
             (Alt (Rep True 3 None (Cls [CHR 0x60])) (Rep True 3 None (Cls ''~''))),
           star blank,
           Grp 0 (Some ''fenced_3'') (Rep False 0 None dot),
           Eol]"

text \<open>
  The alternatives that open an HTML block after the tag alternatives:
  \<^verbatim>\<open><!--|<\?|<![A-Z]|<!\[CDATA\[\<close>
\<close>

definition html_markers :: "regex list" where
  "html_markers = [lit ''<!--'', lit ''<?'', Seq (lit ''<!'') (Cls upper_az), lit ''<![CDATA['']"

text \<open>\<^verbatim>\<open>RAW_HTML = r'^ {0,3}(</?' + HTML_TAGNAME + r'|<!--|<\?|<![A-Z]|<!\[CDATA\[)'\<close>\<close>

definition RAW_HTML :: "ext \<Rightarrow> regex" where
  "RAW_HTML X =
     seqs [Bol, Rep True 0 (Some 3) sp,
           Grp 0 None (alts (seqs [lit ''<'', opt (Cls ''/''), Opaque (HTML_TAGNAME X)] # html_markers))]"

text \<open>
  \<^verbatim>\<open>pre + '|'.join(tags) + post\<close> inside a group: the alternation binds weakest, so
  \<open>pre\<close> belongs to the first tag only and \<open>post\<close> to the last.
\<close>

fun splice_tags :: "regex \<Rightarrow> string list \<Rightarrow> regex \<Rightarrow> regex list" where
  "splice_tags pre [] post = [Seq pre post]"
| "splice_tags pre [t] post = [seqs [pre, lit t, post]]"
| "splice_tags pre (t # ts) post =
     Seq pre (lit t) # map lit (butlast ts) @ [Seq (lit (last ts)) post]"

text \<open>
  \<^verbatim>\<open>_BLOCK_TAGS_PATTERN = '|'.join(BLOCK_TAGS) + '|' + '|'.join(PRE_TAGS)\<close> and
  \<^verbatim>\<open>BLOCK_HTML = r'^ {0,3}(?:(?:</?' + _BLOCK_TAGS_PATTERN + r'(?:[ \t]+|\n|$))|<!--|...)'\<close>
\<close>

definition BLOCK_HTML :: regex where
  "BLOCK_HTML =
     seqs [Bol, Rep True 0 (Some 3) sp,
           alts (alts (splice_tags (Seq (lit ''<'') (opt (Cls ''/''))) (BLOCK_TAGS @ PRE_TAGS)
                         (alts [plus blank, Cls [nl], Eol]))
                 # html_markers)]"

text \<open>
  The other entries of \<^verbatim>\<open>SPECIFICATION\<close>. The class has no attribute of their own for
  these patterns: they exist as entries of the dictionary only.
\<close>

definition spec_axt_heading :: regex where
  \<comment> \<open>\<^verbatim>\<open>^ {0,3}(?P<axt_1>#{1,6})(?!#+)(?P<axt_2>[ \t]*|[ \t]+.*?)$\<close>\<close>
  "spec_axt_heading =
     seqs [Bol, Rep True 0 (Some 3) sp,
           Grp 0 (Some ''axt_1'') (Rep True 1 (Some 6) (Cls ''#'')),
           NLook (plus (Cls ''#'')),
           Grp 0 (Some ''axt_2'') (Alt (star blank) (Seq (plus blank) (Rep False 0 None dot))),
           Eol]"

definition spec_setex_heading :: regex where
  \<comment> \<open>\<^verbatim>\<open>^ {0,3}(?P<setext_1>=|-){1,}[ \t]*$\<close>\<close>
  "spec_setex_heading =
     seqs [Bol, Rep True 0 (Some 3) sp,
           Rep True 1 None (Grp 0 (Some ''setext_1'') (Alt (Cls ''='') (Cls ''-''))),
           star blank, Eol]"

definition spec_thematic_break :: regex where
  \<comment> \<open>\<^verbatim>\<open>^ {0,3}((?:-[ \t]*){3,}|(?:_[ \t]*){3,}|(?:\*[ \t]*){3,})$\<close>\<close>
  "spec_thematic_break =
     seqs [Bol, Rep True 0 (Some 3) sp,
           Grp 0 None (alts [Rep True 3 None (Seq (Cls ''-'') (star blank)),
                             Rep True 3 None (Seq (Cls ''_'') (star blank)),
                             Rep True 3 None (Seq (Cls ''*'') (star blank))]),
           Eol]"

definition spec_ref_link :: "ext \<Rightarrow> regex" where
  \<comment> \<open>\<^verbatim>\<open>r'^ {0,3}\[(?P<link_1>' + LINK_LABEL + r')\]:'\<close>\<close>
  "spec_ref_link X =
     seqs [Bol, Rep True 0 (Some 3) sp, Cls ''['',
           Grp 0 (Some ''link_1'') (Opaque (LINK_LABEL X)), Cls '']'', Cls '':'']"

definition spec_block_quote :: regex where
  \<comment> \<open>\<^verbatim>\<open> {0,3}>(?P<quote_1>.*?)$\<close>\<close>
  "spec_block_quote =
     seqs [Rep True 0 (Some 3) sp, Cls ''>'',
           Grp 0 (Some ''quote_1'') (Rep False 0 None dot), Eol]"

definition SPECIFICATION :: "ext \<Rightarrow> (string \<times> regex) list" where
  "SPECIFICATION X =
     [(''blank_line'', blank_line_pattern),
      (''axt_heading'', spec_axt_heading),
      (''setex_heading'', spec_setex_heading),
      (''fenced_code'', FENCED_CODE),
      (''indent_code'', INDENT_CODE),
      (''thematic_break'', spec_thematic_break),
      (''ref_link'', spec_ref_link X),
      (''block_quote'', spec_block_quote),
      (''list'', LIST),
      (''block_html'', BLOCK_HTML),
      (''raw_html'', RAW_HTML X)]"

definition RULE_NAMES :: "string list" where
  "RULE_NAMES =
     [''blank_line'', ''fenced_code'', ''indent_code'', ''axt_heading'', ''setex_heading'',
      ''thematic_break'', ''block_quote'', ''ref_link'', ''raw_html'']"

section \<open>Strings\<close>

text \<open>\<^verbatim>\<open>s[a:b]\<close> for positions inside the usual range, \<^verbatim>\<open>s.strip()\<close>, \<^verbatim>\<open>s.strip('\n')\<close>.\<close>

definition slice :: "string \<Rightarrow> nat \<Rightarrow> nat \<Rightarrow> string" where
  "slice s a b = take (b - a) (drop a s)"

definition strip_chars :: "char list \<Rightarrow> string \<Rightarrow> string" where
  "strip_chars cs s =
     rev (dropWhile (\<lambda>c. c \<in> set cs) (rev (dropWhile (\<lambda>c. c \<in> set cs) s)))"

definition strip :: "string \<Rightarrow> string" where
  "strip s = strip_chars py_space s"

text \<open>\<^verbatim>\<open>s.find(t, start)\<close>: the first position from \<open>start\<close> on where \<open>t\<close> occurs.\<close>

fun find_from :: "string \<Rightarrow> nat \<Rightarrow> string \<Rightarrow> nat option" where
  "find_from t i [] = (if t = [] then Some i else None)"
| "find_from t i (x # xs) =
     (if take (length t) (x # xs) = t then Some i else find_from t (Suc i) xs)"

definition find :: "string \<Rightarrow> string \<Rightarrow> nat \<Rightarrow> nat option" where
  "find s t start = (if length s < start then None else find_from t start (drop start s))"

definition startswith :: "string \<Rightarrow> string \<Rightarrow> bool" where
  "startswith s t = (take (length t) s = t)"

text \<open>\<^verbatim>\<open>s.lower()\<close> on the code points below 256.\<close>

definition lower_char :: "char \<Rightarrow> char" where
  "lower_char c =
     (let n = of_char c :: nat
      in if (65 \<le> n \<and> n \<le> 90) \<or> (192 \<le> n \<and> n \<le> 222 \<and> n \<noteq> 215)
         then char_of (n + 32) else c)"

definition lower :: "string \<Rightarrow> string" where
  "lower s = map lower_char s"

text \<open>\<^verbatim>\<open>sep.join(names)\<close>\<close>

fun join :: "string \<Rightarrow> string list \<Rightarrow> string" where
  "join sep [] = []"
| "join sep [x] = x"
| "join sep (x # xs) = x @ sep @ join sep xs"

section \<open>Tokens and the block state\<close>

text \<open>
  A token is a Python dictionary with a fixed set of possible keys; a key that is not set
  is \<open>None\<close> here. \<open>tok_lines\<close> holds \<^verbatim>\<open>start_line\<close> and \<^verbatim>\<open>end_line\<close>. The values of
  \<^verbatim>\<open>attrs\<close> are numbers, truth values or strings.
\<close>

datatype aval = AInt int | ABool bool | AStr string

datatype token =
  Token (tok_type: string)
        (tok_raw: "string option")
        (tok_text: "string option")
        (tok_attrs: "(string \<times> aval) list option")
        (tok_children: "token list option")
        (tok_fenced: "bool option")
        (tok_lines: "(int \<times> int) option")

text \<open>An entry of the table of link references: \<^verbatim>\<open>{'url': ..., 'title': ...}\<close>.\<close>

record link =
  url :: string
  title :: "string option"

text \<open>
  Modelled from the spec: the class \<^verbatim>\<open>BlockState\<close> of \<^verbatim>\<open>state.py\<close>, which is not part
  of the sources at hand (sections 3 and 4.1 of the specification). The environment is the
  table of link references, a dictionary kept as an association list in the order of
  insertion. A child state shares the table of its parent: the model copies
  the table into the child and back into the parent when the child has been parsed.
\<close>

record state =
  src :: string
  cursor :: nat
  cursor_max :: nat
  tokens :: "token list"
  ref_links :: "(string \<times> link) list"
  line :: int
  line_root :: int
  depth :: nat
  in_block :: string
  list_tight :: bool

text \<open>Modelled from the spec: a root state for a document (section 3, lifecycle).\<close>

definition root_state :: "string \<Rightarrow> state" where
  "root_state s =
     \<lparr>src = s, cursor = 0, cursor_max = length s, tokens = [], ref_links = [],
      line = 0, line_root = 0, depth = 0, in_block = ''document'', list_tight = True\<rparr>"

text \<open>
  Modelled from the spec: \<^verbatim>\<open>state_cls(parent)\<close>, "a child state sharing env and
  inheriting depth+1", with no source and no tokens yet.
\<close>

definition child_state :: "state \<Rightarrow> state" where
  "child_state parent =
     \<lparr>src = [], cursor = 0, cursor_max = 0, tokens = [], ref_links = ref_links parent,
      line = 0, line_root = line_root parent, depth = Suc (depth parent),
      in_block = in_block parent, list_tight = True\<rparr>"

text \<open>Modelled from the spec: \<^verbatim>\<open>process(text)\<close> gives the state its source.\<close>

definition process :: "string \<Rightarrow> state \<Rightarrow> state" where
  "process text st = st\<lparr>src := text, cursor := 0, cursor_max := length text\<rparr>"

text \<open>
  Modelled from the spec: \<^verbatim>\<open>match(pattern)\<close>, "attempt the pattern against the source
  starting at cursor".
\<close>

definition state_match :: "regex \<Rightarrow> state \<Rightarrow> match option" where
  "state_match r st = re_match r (src st) (cursor st)"

text \<open>Modelled from the spec: \<^verbatim>\<open>get_text(end)\<close>, the source from the cursor to \<open>end\<close>.\<close>

definition get_text :: "state \<Rightarrow> nat \<Rightarrow> string" where
  "get_text st e = slice (src st) (cursor st) e"

text \<open>
  Modelled from the spec: \<^verbatim>\<open>find_line_end()\<close>, the offset where the current logical
  line ends: behind the next newline, or the end of the source when there is none.
\<close>

definition find_line_end :: "state \<Rightarrow> nat" where
  "find_line_end st =
     (case find (src st) [nl] (cursor st) of
        None \<Rightarrow> length (src st)
      | Some i \<Rightarrow> Suc i)"

text \<open>Modelled from the spec: \<^verbatim>\<open>last_token()\<close>, \<^verbatim>\<open>append_token\<close>, \<^verbatim>\<open>add_token\<close>.\<close>

definition last_token :: "state \<Rightarrow> token option" where
  "last_token st = (if tokens st = [] then None else Some (last (tokens st)))"

definition append_token :: "token \<Rightarrow> state \<Rightarrow> state" where
  "append_token tok st = st\<lparr>tokens := tokens st @ [tok]\<rparr>"

definition add_token :: "token \<Rightarrow> int \<Rightarrow> state \<Rightarrow> state" where
  "add_token tok delta st = st\<lparr>tokens := tokens st @ [tok], line := line st + delta\<rparr>"

text \<open>
  Modelled from the spec: \<^verbatim>\<open>prepend_token\<close> "inserts before the most recently appended
  token".
\<close>

definition prepend_token :: "token \<Rightarrow> state \<Rightarrow> state" where
  "prepend_token tok st =
     (if tokens st = [] then st\<lparr>tokens := [tok]\<rparr>
      else st\<lparr>tokens := butlast (tokens st) @ [tok, last (tokens st)]\<rparr>)"

text \<open>The last token with its text extended: what both paragraph operations do.\<close>

definition extend_last :: "string \<Rightarrow> state \<Rightarrow> state" where
  "extend_last t st =
     (case last (tokens st) of Token ty rw tx at ch fe li \<Rightarrow>
        st\<lparr>tokens := butlast (tokens st) @
                        [Token ty rw (Some (case_option [] id tx @ t)) at ch fe li]\<rparr>)"

definition is_paragraph :: "token option \<Rightarrow> bool" where
  "is_paragraph t = (case t of None \<Rightarrow> False | Some tok \<Rightarrow> tok_type tok = ''paragraph'')"

text \<open>
  Modelled from the spec: \<^verbatim>\<open>append_paragraph()\<close>, "if the last emitted token is a
  paragraph, append the current logical line to its text and advance cursor; returns the new
  cursor. Otherwise returns none."
\<close>

definition append_paragraph :: "state \<Rightarrow> nat option \<times> state" where
  "append_paragraph st =
     (if is_paragraph (last_token st)
      then (let pos = find_line_end st
            in (Some pos, (extend_last (get_text st pos) st)\<lparr>cursor := pos\<rparr>))
      else (None, st))"

text \<open>
  Modelled from the spec: \<^verbatim>\<open>add_paragraph(text)\<close>, "start or extend a paragraph token
  with the given text".
\<close>

definition add_paragraph :: "string \<Rightarrow> state \<Rightarrow> state" where
  "add_paragraph t st =
     (if is_paragraph (last_token st) then extend_last t st
      else append_token (Token ''paragraph'' None (Some t) None None None None) st)"

text \<open>Python's truth value of a returned position: \<^verbatim>\<open>None\<close> and 0 are false.\<close>

definition truthy :: "nat option \<Rightarrow> bool" where
  "truthy r = (case r of None \<Rightarrow> False | Some n \<Rightarrow> n \<noteq> 0)"

section \<open>The parser object\<close>

text \<open>
  An entry of \<^verbatim>\<open>self.__methods\<close>: a method \<^verbatim>\<open>parse_<name>\<close> of the class, bound by
  \<^verbatim>\<open>__init__\<close>, or the one-argument \<^verbatim>\<open>lambda state: func(self, state)\<close> that
  \<^verbatim>\<open>register_rule\<close> stores around a user's function (here a number that names it).
\<close>

datatype handler = Builtin string | Registered nat

text \<open>
  The dictionaries are association lists; a later binding is put in front.
  \<open>parser_specification\<close> is \<^verbatim>\<open>self.specification\<close>, \<open>sc\<close> is \<^verbatim>\<open>self.__sc\<close>,
  \<open>methods\<close> is \<^verbatim>\<open>self.__methods\<close>.
\<close>

record parser =
  parser_specification :: "(string \<times> regex) list"
  rules :: "string list"
  block_quote_rules :: "string list"
  list_rules :: "string list"
  max_nested_level :: int
  sc :: "(string \<times> regex) list"
  methods :: "(string \<times> handler) list"

definition init :: "ext \<Rightarrow> string list option \<Rightarrow> string list option \<Rightarrow>
    string list option \<Rightarrow> int \<Rightarrow> parser" where
  "init X rules0 block_quote_rules0 list_rules0 max_nested_level0 =
     \<lparr>parser_specification = SPECIFICATION X,
      rules = (case rules0 of None \<Rightarrow> RULE_NAMES | Some rs \<Rightarrow> rs),
      block_quote_rules = (case block_quote_rules0 of None \<Rightarrow> RULE_NAMES | Some rs \<Rightarrow> rs),
      list_rules = (case list_rules0 of None \<Rightarrow> RULE_NAMES | Some rs \<Rightarrow> rs),
      max_nested_level = max_nested_level0,
      sc = [],
      methods = map (\<lambda>name. (name, Builtin name)) RULE_NAMES\<rparr>"

text \<open>The parser with every default: \<^verbatim>\<open>BlockParser()\<close>.\<close>

definition default_parser :: "ext \<Rightarrow> parser" where
  "default_parser X = init X None None None 6"

text \<open>
  \<^verbatim>\<open>'(?P<%s>%s)' % (k, self.specification[k]) for k in rules\<close>: KeyError at the first
  name without a pattern.
\<close>

fun rule_groups :: "(string \<times> regex) list \<Rightarrow> string list \<Rightarrow> pyerr + regex list" where
  "rule_groups spec [] = Inr []"
| "rule_groups spec (k # ks) =
     (case map_of spec k of
        None \<Rightarrow> Inl KeyError
      | Some r \<Rightarrow>
          (case rule_groups spec ks of
             Inl e \<Rightarrow> Inl e
           | Inr rs \<Rightarrow> Inr (Grp 0 (Some k) r # rs)))"

text \<open>
  \<^verbatim>\<open>compile_sc\<close>. The cache \<^verbatim>\<open>self.__sc\<close> is looked up first, under the key
  \<^verbatim>\<open>'$'\<close> for the parser's own rules and under the joined names otherwise; a compiled
  pattern is never false, so a cached one is returned as it is. \<^verbatim>\<open>re.compile\<close>
  refuses a pattern that names two groups alike.
\<close>

definition compile_sc :: "parser \<Rightarrow> string list option \<Rightarrow> pyerr + (regex \<times> parser)" where
  "compile_sc P rules0 =
     (let key = (case rules0 of None \<Rightarrow> ''$'' | Some rs \<Rightarrow> join ''|'' rs);
          rs = (case rules0 of None \<Rightarrow> rules P | Some rs \<Rightarrow> rs)
      in case map_of (sc P) key of
           Some c \<Rightarrow> Inr (c, P)
         | None \<Rightarrow>
             (case rule_groups (parser_specification P) rs of
                Inl e \<Rightarrow> Inl e
              | Inr gs \<Rightarrow>
                  (let c = re_compile (alts gs)
                   in if distinct (map fst (groupindex c))
                      then Inr (c, P\<lparr>sc := (key, c) # sc P\<rparr>)
                      else Inl ReError)))"

text \<open>\<^verbatim>\<open>xs.index(x)\<close>: the first index of \<open>x\<close>, ValueError when there is none.\<close>

fun index :: "'a list \<Rightarrow> 'a \<Rightarrow> pyerr + nat" where
  "index [] x = Inl ValueError"
| "index (y # ys) x =
     (if y = x then Inr 0
      else (case index ys x of Inl e \<Rightarrow> Inl e | Inr i \<Rightarrow> Inr (Suc i)))"

text \<open>\<^verbatim>\<open>xs.insert(i, x)\<close> for an index inside the list.\<close>

definition insert_at :: "nat \<Rightarrow> 'a \<Rightarrow> 'a list \<Rightarrow> 'a list" where
  "insert_at i x xs = take i xs @ x # drop i xs"

text \<open>
  \<^verbatim>\<open>register_rule(name, func, before=None)\<close>. \<^verbatim>\<open>if before:\<close> is false for \<^verbatim>\<open>None\<close>
  and for the empty string.
\<close>

definition register_rule :: "parser \<Rightarrow> string \<Rightarrow> nat \<Rightarrow> string option \<Rightarrow> pyerr + parser" where
  "register_rule P name func before =
     (let P1 = P\<lparr>methods := (name, Registered func) # methods P\<rparr>
      in case before of
           None \<Rightarrow> Inr (P1\<lparr>rules := rules P1 @ [name]\<rparr>)
         | Some b \<Rightarrow>
             if b = [] then Inr (P1\<lparr>rules := rules P1 @ [name]\<rparr>)
             else (case index (rules P1) b of
                     Inl e \<Rightarrow> Inl e
                   | Inr i \<Rightarrow> Inr (P1\<lparr>rules := insert_at i name (rules P1)\<rparr>)))"

section \<open>The handlers of the leaf blocks\<close>

text \<open>
  A handler gets the match and the state, and returns what the Python method returns
  (a position, or \<^verbatim>\<open>None\<close>) with the state as the method leaves it.
  The fields of \<open>Token\<close>: type, raw, text, attrs, children, fenced, lines.
\<close>

definition parse_blank_line :: "match \<Rightarrow> state \<Rightarrow> pyerr + (nat option \<times> state)" where
  "parse_blank_line m st =
     Inr (Some (m_end m),
          append_token (Token ''blank_line'' None None None None None None) st)"

definition parse_thematic_break :: "match \<Rightarrow> state \<Rightarrow> pyerr + (nat option \<times> state)" where
  "parse_thematic_break m st =
     Inr (Some (m_end m + 1),
          append_token (Token ''thematic_break'' None None None None None None) st)"

text \<open>\<^verbatim>\<open>_INDENT_CODE_TRIM = re.compile(r'^ {1,4}', flags=re.M)\<close>\<close>

definition INDENT_CODE_TRIM :: regex where
  "INDENT_CODE_TRIM = re_compile (Seq Bol (Rep True 1 (Some 4) sp))"

text \<open>
  \<^verbatim>\<open>parse_indent_code\<close>. \<^verbatim>\<open>expand_leading_tab(code)\<close> is called without a width; the
  default is taken to be 4, the width of a tab in indented code.
\<close>

definition parse_indent_code :: "ext \<Rightarrow> match \<Rightarrow> state \<Rightarrow> pyerr + (nat option \<times> state)" where
  "parse_indent_code X m st =
     (case append_paragraph st of (end_pos, st1) \<Rightarrow>
        if truthy end_pos then Inr (end_pos, st1)
        else (case group m ''indent_code'' of
                Inl e \<Rightarrow> Inl e
              | Inr None \<Rightarrow> Inl TypeError
              | Inr (Some code) \<Rightarrow>
                  (let code1 = expand_leading_tab code 4;
                       code2 = re_sub_empty INDENT_CODE_TRIM code1;
                       code3 = escape X (strip_chars [nl] code2)
                   in Inr (Some (m_end m),
                           append_token
                             (Token ''block_code'' (Some code3) None None None None None) st1))))"

text \<open>
  The closing fence of \<^verbatim>\<open>parse_fenced_code\<close>:
  \<^verbatim>\<open>re.compile(r'^ {0,3}' + c + '{' + str(len(marker)) + r',}[ \t]*(?:\n|$)', re.M)\<close>.
  The character \<open>c\<close> is spliced into the pattern; it is a backtick or a tilde for every
  match of \<open>FENCED_CODE\<close>, and stands for itself.
\<close>

definition fence_end :: "char \<Rightarrow> nat \<Rightarrow> regex" where
  "fence_end c n =
     re_compile (seqs [Bol, Rep True 0 (Some 3) sp, Rep True n None (Cls [c]), star blank,
                       Alt (Cls [nl]) Eol])"

text \<open>\<^verbatim>\<open>re.compile('^ {0,' + str(len(spaces)) + '}', re.M)\<close>\<close>

definition fence_trim :: "nat \<Rightarrow> regex" where
  "fence_trim k = re_compile (Seq Bol (Rep True 0 (Some k) sp))"

text \<open>
  The token of \<^verbatim>\<open>parse_fenced_code\<close>, from the leading spaces and the info string of
  the opening line and the text between the fences: the text loses up to as many leading
  spaces per line as the opening line has, and is escaped.
\<close>

definition fenced_token :: "ext \<Rightarrow> string option \<Rightarrow> string option \<Rightarrow> string \<Rightarrow> token" where
  "fenced_token X spaces info code =
     (let code1 = (if spaces \<noteq> None \<and> spaces \<noteq> Some [] \<and> code \<noteq> []
                   then re_sub_empty (fence_trim (length (the spaces))) code
                   else code);
          attrs = (if info \<noteq> None \<and> info \<noteq> Some []
                   then Some [(''info'', AStr (safe_entity X (strip (unescape_char X (the info)))))]
                   else None)
      in Token ''block_code'' (Some (escape X code1)) None attrs None (Some True) None)"

definition parse_fenced_code :: "ext \<Rightarrow> match \<Rightarrow> state \<Rightarrow> pyerr + (nat option \<times> state)" where
  "parse_fenced_code X m st =
     (case group m ''fenced_1'' of Inl e \<Rightarrow> Inl e | Inr spaces \<Rightarrow>
     (case group m ''fenced_2'' of Inl e \<Rightarrow> Inl e | Inr marker0 \<Rightarrow>
     (case group m ''fenced_3'' of Inl e \<Rightarrow> Inl e | Inr info \<Rightarrow>
     (case marker0 of None \<Rightarrow> Inl TypeError | Some marker \<Rightarrow>
      if marker = [] then Inl IndexError
      else
        (let c = hd marker
         in if info \<noteq> None \<and> info \<noteq> Some [] \<and> c = CHR 0x60 \<and> c \<in> set (the info)
            then Inr (None, st)
            else
              (let cursor_start = m_end m
               in case re_search (fence_end c (length marker)) (src st) cursor_start of
                    Some m2 \<Rightarrow>
                      Inr (Some (m_end m2),
                           append_token
                             (fenced_token X spaces info
                                (slice (src st) cursor_start (m_start m2))) st)
                  | None \<Rightarrow>
                      Inr (Some (cursor_max st),
                           append_token
                             (fenced_token X spaces info (drop cursor_start (src st))) st)))))))"

text \<open>\<^verbatim>\<open>_AXT_HEADING_TRIM = re.compile(r'(\s+|^)#+\s*$')\<close>\<close>

definition AXT_HEADING_TRIM :: regex where
  "AXT_HEADING_TRIM =
     re_compile (seqs [Grp 0 None (Alt (plus (Cls py_space)) Sos), plus (Cls ''#''),
                       star (Cls py_space), Eos])"

definition parse_axt_heading :: "match \<Rightarrow> state \<Rightarrow> pyerr + (nat option \<times> state)" where
  "parse_axt_heading m st =
     (case group m ''axt_1'' of Inl e \<Rightarrow> Inl e | Inr None \<Rightarrow> Inl TypeError
      | Inr (Some hashes) \<Rightarrow>
     (case group m ''axt_2'' of Inl e \<Rightarrow> Inl e | Inr None \<Rightarrow> Inl AttributeError
      | Inr (Some t) \<Rightarrow>
        (let level = int (length hashes);
             text0 = strip t;
             text1 = (if text0 \<noteq> [] then re_sub_empty AXT_HEADING_TRIM text0 else text0)
         in Inr (Some (m_end m + 1),
                 append_token
                   (Token ''heading'' None (Some text1) (Some [(''level'', AInt level)])
                      None None None) st))))"

text \<open>
  \<^verbatim>\<open>parse_setex_heading\<close>: the last token is rewritten where it is, its type and its
  \<^verbatim>\<open>attrs\<close> are replaced. The method returns nothing when the last token is no paragraph.
\<close>

definition parse_setex_heading :: "match \<Rightarrow> state \<Rightarrow> pyerr + (nat option \<times> state)" where
  "parse_setex_heading m st =
     (if is_paragraph (last_token st)
      then (case group m ''setext_1'' of
              Inl e \<Rightarrow> Inl e
            | Inr g \<Rightarrow>
                (let level = (if g = Some ''='' then 1 else 2)
                 in case last (tokens st) of Token ty rw tx at ch fe li \<Rightarrow>
                      Inr (Some (m_end m + 1),
                           st\<lparr>tokens := butlast (tokens st) @
                                 [Token ''heading'' rw tx (Some [(''level'', AInt level)])
                                    ch fe li]\<rparr>)))
      else Inr (None, st))"

text \<open>\<^verbatim>\<open>_BLANK_TO_LINE = re.compile(r'[ \t]*\n')\<close>\<close>

definition BLANK_TO_LINE :: regex where
  "BLANK_TO_LINE = re_compile (Seq (star blank) (Cls [nl]))"

text \<open>
  \<^verbatim>\<open>parse_ref_link\<close>. The helpers that read the destination and the title are parameters.
  \<^verbatim>\<open>title_pos or href_pos\<close> is the first of the two that is true.
\<close>

definition parse_ref_link :: "ext \<Rightarrow> match \<Rightarrow> state \<Rightarrow> pyerr + (nat option \<times> state)" where
  "parse_ref_link X m st =
     (case append_paragraph st of (end_pos0, st1) \<Rightarrow>
        if truthy end_pos0 then Inr (end_pos0, st1)
        else
          (case group m ''link_1'' of Inl e \<Rightarrow> Inl e | Inr None \<Rightarrow> Inl TypeError
           | Inr (Some label) \<Rightarrow>
             (let key = unikey X label
              in if key = [] then Inr (None, st1)
                 else
                   (case parse_link_href X (src st1) (m_end m) of
                      None \<Rightarrow> Inr (None, st1)
                    | Some (href0, href_pos0) \<Rightarrow>
                        (let max_pos = (case re_search BLANK_LINE (src st1) href_pos0 of
                                          Some b \<Rightarrow> m_start b
                                        | None \<Rightarrow> cursor_max st1);
                             tt = parse_link_title X (src st1) href_pos0 max_pos;
                             tt1 = (if truthy (snd tt)
                                    then (case re_match BLANK_TO_LINE (src st1) (the (snd tt)) of
                                            Some b \<Rightarrow> (fst tt, Some (m_end b))
                                          | None \<Rightarrow> (None, None))
                                    else tt);
                             title1 = fst tt1;
                             title_pos = snd tt1;
                             hh = (if title_pos = None
                                   then (case re_match BLANK_TO_LINE (src st1) href_pos0 of
                                           Some b \<Rightarrow> (Some href0, Some (m_end b))
                                         | None \<Rightarrow> (None, None))
                                   else (Some href0, Some href_pos0));
                             href = fst hh;
                             href_pos = snd hh;
                             end_pos = (if truthy title_pos then title_pos else href_pos)
                         in if \<not> truthy end_pos then Inr (None, st1)
                            else if map_of (ref_links st1) key \<noteq> None then Inr (end_pos, st1)
                            else
                              (case href of
                                 None \<Rightarrow> Inl TypeError
                               | Some h \<Rightarrow>
                                   (let attrs = \<lparr>url = escape_url X (unescape_char X h),
                                                 title = (if title1 \<noteq> None \<and> title1 \<noteq> Some []
                                                          then Some (safe_entity X (the title1))
                                                          else None)\<rparr>
                                    in Inr (end_pos,
                                            st1\<lparr>ref_links := ref_links st1 @ [(key, attrs)]\<rparr>))))))))"

section \<open>HTML blocks\<close>

text \<open>\<^verbatim>\<open>pattern.match(s, pos, endpos)\<close>: as if the string ended at \<open>endpos\<close>.\<close>

definition re_match_end :: "regex \<Rightarrow> string \<Rightarrow> nat \<Rightarrow> nat \<Rightarrow> match option" where
  "re_match_end r s pos endpos = re_match r (take endpos s) pos"

text \<open>
  \<^verbatim>\<open>_OPEN_TAG_END = re.compile(HTML_ATTRIBUTES + r'[ \t]*>[ \t]*(?:\n|$)')\<close> and
  \<^verbatim>\<open>_CLOSE_TAG_END = re.compile(r'[ \t]*>[ \t]*(?:\n|$)')\<close>
\<close>

definition CLOSE_TAG_END :: regex where
  "CLOSE_TAG_END = re_compile (seqs [star blank, Cls ''>'', star blank, Alt (Cls [nl]) Eos])"

definition OPEN_TAG_END :: "ext \<Rightarrow> regex" where
  "OPEN_TAG_END X =
     re_compile (seqs [Opaque (HTML_ATTRIBUTES X), star blank, Cls ''>'', star blank, Alt (Cls [nl]) Eos])"

definition parse_html_to_end :: "state \<Rightarrow> string \<Rightarrow> nat \<Rightarrow> nat option \<times> state" where
  "parse_html_to_end st end_marker start_pos =
     (case find (src st) end_marker start_pos of
        None \<Rightarrow>
          (Some (cursor_max st),
           append_token (Token ''block_html'' (Some (drop (cursor st) (src st))) None None None
                           None None) st)
      | Some marker_pos \<Rightarrow>
          (let text0 = get_text st marker_pos;
               st1 = st\<lparr>cursor := marker_pos\<rparr>;
               end_pos = find_line_end st1;
               text1 = text0 @ get_text st1 end_pos
           in (Some end_pos,
               append_token (Token ''block_html'' (Some text1) None None None None None) st1)))"

definition parse_html_to_newline :: "state \<Rightarrow> regex \<Rightarrow> nat option \<times> state" where
  "parse_html_to_newline st newline =
     (case re_search newline (src st) (cursor st) of
        Some m \<Rightarrow>
          (Some (m_start m),
           append_token (Token ''block_html'' (Some (get_text st (m_start m))) None None None
                           None None) st)
      | None \<Rightarrow>
          (Some (cursor_max st),
           append_token (Token ''block_html'' (Some (drop (cursor st) (src st))) None None None
                           None None) st))"

text \<open>
  \<^verbatim>\<open>parse_raw_html\<close>. \<^verbatim>\<open>m.group(m.lastgroup)\<close> is the text of the rule that matched.
\<close>

definition parse_raw_html :: "ext \<Rightarrow> match \<Rightarrow> state \<Rightarrow> pyerr + (nat option \<times> state)" where
  "parse_raw_html X m st =
     (case lastgroup m of None \<Rightarrow> Inl IndexError | Some name \<Rightarrow>
     (case group m name of Inl e \<Rightarrow> Inl e | Inr None \<Rightarrow> Inl AttributeError
      | Inr (Some g) \<Rightarrow>
        (let marker = strip g
         in if marker = ''<!--'' then Inr (parse_html_to_end st ''-->'' (m_end m))
            else if marker = ''<?'' then Inr (parse_html_to_end st ''?>'' (m_end m))
            else if marker = ''<![CDATA['' then Inr (parse_html_to_end st '']]>'' (m_end m))
            else if startswith marker ''<!'' then Inr (parse_html_to_end st ''>'' (m_end m))
            else
              (let is_close = startswith marker ''</'';
                   close_tag = lower (drop 2 marker);
                   open_tag = lower (drop 1 marker)
               in if is_close \<and> close_tag \<in> set BLOCK_TAGS
                  then Inr (parse_html_to_newline st BLANK_LINE)
                  else if \<not> is_close \<and> open_tag \<in> set PRE_TAGS
                  then Inr (parse_html_to_end st (''</'' @ open_tag @ ''>'') (m_end m))
                  else if \<not> is_close \<and> open_tag \<in> set BLOCK_TAGS
                  then Inr (parse_html_to_newline st BLANK_LINE)
                  else
                    (case append_paragraph st of (end_pos0, st1) \<Rightarrow>
                       if truthy end_pos0 then Inr (end_pos0, st1)
                       else
                         (let start_pos = m_end m;
                              end_pos = find_line_end st1
                          in if (\<not> is_close \<and> open_tag \<noteq> [] \<and>
                                   re_match_end (OPEN_TAG_END X) (src st1) start_pos end_pos \<noteq> None)
                                \<or> (is_close \<and> close_tag \<noteq> [] \<and>
                                   re_match_end CLOSE_TAG_END (src st1) start_pos end_pos \<noteq> None)
                             then Inr (parse_html_to_newline st1 BLANK_LINE)
                             else Inr (None, st1)))))))"

section \<open>Lists\<close>

text \<open>\<^verbatim>\<open>_LINE_BLANK_END = re.compile(r'\n[ \t]*\n$')\<close>, \<^verbatim>\<open>_LINE_HAS_TEXT = re.compile(r'( *)\S')\<close>\<close>

definition LINE_BLANK_END :: regex where
  "LINE_BLANK_END = re_compile (seqs [Cls [nl], star blank, Cls [nl], Eos])"

definition LINE_HAS_TEXT :: regex where
  "LINE_HAS_TEXT = re_compile (Seq (Grp 0 None (star sp)) (NCls py_space))"

text \<open>\<^verbatim>\<open>_get_list_bullet\<close>: the pattern of the bullets that continue a list.\<close>

definition get_list_bullet :: "char \<Rightarrow> regex" where
  "get_list_bullet c =
     (if c = CHR ''.'' then Seq (Rep True 0 (Some 9) (Cls digits)) (Cls ''.'')
      else if c = CHR 0x29 then Seq (Rep True 0 (Some 9) (Cls digits)) (Cls [CHR 0x29])
      else if c = CHR ''*'' then Cls ''*''
      else if c = CHR ''+'' then Cls ''+''
      else Cls ''-'')"

text \<open>
  \<^verbatim>\<open>_compile_list_item_pattern\<close>:
  \<^verbatim>\<open>( {0,w})(bullet)([ \t]*|[ \t][^\n]+)(?:\n|$)\<close> with \<open>w\<close> at most 3.
\<close>

definition compile_list_item_pattern :: "regex \<Rightarrow> nat \<Rightarrow> regex" where
  "compile_list_item_pattern bullet leading_width =
     seqs [Grp 0 None (Rep True 0 (Some (if 3 < leading_width then 3 else leading_width)) sp),
           Grp 0 None bullet,
           Grp 0 None (Alt (star blank) (Seq blank (plus (NCls [nl])))),
           Alt (Cls [nl]) Eos]"

text \<open>\<^verbatim>\<open>_compile_continue_width\<close>\<close>

definition compile_continue_width :: "string \<Rightarrow> nat \<Rightarrow> string \<times> nat" where
  "compile_continue_width text0 leading_width =
     (let text1 = expand_tab (expand_leading_tab text0 3)
      in case re_match LINE_HAS_TEXT text1 0 of
           Some m2 \<Rightarrow>
             (let space_width =
                    (if startswith text1 ''     '' then 1
                     else (case map_of (m_caps m2) 1 of None \<Rightarrow> 0 | Some g \<Rightarrow> length g))
              in (drop space_width text1, leading_width + space_width))
         | None \<Rightarrow> ([], leading_width + 1))"

text \<open>
  \<^verbatim>\<open>_parse_list_item\<close>. The method reads the three groups of the match, computes the
  bullet, the pattern of the next item and the width of continuation lines, and then builds
  the list \<^verbatim>\<open>pairs\<close>, whose first element is
  \<^verbatim>\<open>('thematic_break', self.THEMATIC_BREAK.pattern)\<close>. The class \<^verbatim>\<open>BlockParser\<close> has
  no attribute \<^verbatim>\<open>THEMATIC_BREAK\<close> (nor \<^verbatim>\<open>AXT_HEADING\<close> or \<^verbatim>\<open>BLOCK_QUOTE\<close>, and
  \<^verbatim>\<open>FENCED_CODE\<close> and \<^verbatim>\<open>LIST\<close> are strings without \<^verbatim>\<open>.pattern\<close>), so the
  evaluation of that element raises AttributeError, and the rest of the method is never
  reached. The result, had there been one, would be the match of the next item, the state
  and the children.
\<close>

definition parse_list_item :: "parser \<Rightarrow> state \<Rightarrow> match \<Rightarrow> token list \<Rightarrow> string list \<Rightarrow>
    pyerr + (match option \<times> state \<times> token list)" where
  "parse_list_item P parent_state m children rs =
     (case group_idx m 1 of Inl e \<Rightarrow> Inl e | Inr None \<Rightarrow> Inl TypeError
      | Inr (Some g1) \<Rightarrow>
     (case group_idx m 2 of Inl e \<Rightarrow> Inl e | Inr None \<Rightarrow> Inl TypeError
      | Inr (Some marker) \<Rightarrow>
        if marker = [] then Inl IndexError
        else
     (case group_idx m 3 of Inl e \<Rightarrow> Inl e | Inr None \<Rightarrow> Inl TypeError
      | Inr (Some g3) \<Rightarrow>
        (let start_line = line parent_state + line_root parent_state;
             space_width = length g1;
             leading_width = space_width + length marker;
             bullet = get_list_bullet (last marker);
             item_pattern = compile_list_item_pattern bullet leading_width;
             tc = compile_continue_width g3 leading_width
         in Inl AttributeError))))"

text \<open>\<^verbatim>\<open>while m: m = self._parse_list_item(state, m, children, rules)\<close>\<close>

function parse_list_items :: "parser \<Rightarrow> string list \<Rightarrow> match option \<Rightarrow> state \<Rightarrow> token list \<Rightarrow>
    pyerr + (state \<times> token list)" where
  "parse_list_items P rs mo st children =
     (case mo of
        None \<Rightarrow> Inr (st, children)
      | Some m \<Rightarrow>
          (case parse_list_item P st m children rs of
             Inl e \<Rightarrow> Inl e
           | Inr (mo', st', children') \<Rightarrow> parse_list_items P rs mo' st' children'))"
  by pat_completeness auto
termination
  by (relation "{}") (auto simp: parse_list_item_def Let_def split: sum.splits option.splits if_splits)

text \<open>\<^verbatim>\<open>xs.remove(x)\<close>: without the first \<open>x\<close>, ValueError when there is none.\<close>

fun remove_first :: "'a list \<Rightarrow> 'a \<Rightarrow> pyerr + 'a list" where
  "remove_first [] x = Inl ValueError"
| "remove_first (y # ys) x =
     (if y = x then Inr ys
      else (case remove_first ys x of Inl e \<Rightarrow> Inl e | Inr zs \<Rightarrow> Inr (y # zs)))"

text \<open>
  \<^verbatim>\<open>int(s)\<close> for a run of decimal digits, as the digits of a list marker are; any other
  text is refused with ValueError.
\<close>

definition digit_val :: "char \<Rightarrow> int" where
  "digit_val c = int (of_char c) - 48"

definition py_int :: "string \<Rightarrow> pyerr + int" where
  "py_int s =
     (if s \<noteq> [] \<and> list_all (\<lambda>c. c \<in> set digits) s
      then Inr (foldl (\<lambda>a c. 10 * a + digit_val c) 0 s)
      else Inl ValueError)"

text \<open>What \<^verbatim>\<open>parse_list\<close> returns: a position, or \<^verbatim>\<open>True\<close>.\<close>

datatype list_result = Pos nat | PyTrue

text \<open>
  \<^verbatim>\<open>parse_list\<close>. The rules for the children of the items are computed before the first
  item is parsed.
\<close>

definition list_item_rules :: "parser \<Rightarrow> state \<Rightarrow> pyerr + string list" where
  "list_item_rules P st =
     (if max_nested_level P \<le> int (depth st)
      then remove_first (list_rules P) ''list''
      else Inr (list_rules P))"

definition parse_list_body :: "parser \<Rightarrow> match \<Rightarrow> state \<Rightarrow> (string \<times> aval) list \<Rightarrow>
    pyerr + (list_result \<times> state)" where
  "parse_list_body P m st attrs =
     (case list_item_rules P st of Inl e \<Rightarrow> Inl e | Inr rs \<Rightarrow>
     (case parse_list_items P rs (Some m) st [] of Inl e \<Rightarrow> Inl e
      | Inr (st1, children) \<Rightarrow>
        (let item_attrs = [(''depth'', AInt (int (depth st1))), (''tight'', ABool (list_tight st1))];
             children1 = map (\<lambda>tok. case tok of Token ty rw tx at ch fe li \<Rightarrow>
                                       Token ty rw tx (Some item_attrs) ch fe li) children;
             token = Token ''list'' None None (Some (attrs @ item_attrs)) (Some children1)
                       None None
         in Inr (PyTrue, (add_token token 0 st1)\<lparr>list_tight := True\<rparr>))))"

definition parse_list :: "parser \<Rightarrow> match \<Rightarrow> state \<Rightarrow> pyerr + (list_result \<times> state)" where
  "parse_list P m st =
     (case group m ''list_3'' of Inl e \<Rightarrow> Inl e | Inr None \<Rightarrow> Inl AttributeError
      | Inr (Some text0) \<Rightarrow>
        (let r0 = (if strip text0 = [] then append_paragraph st else (None, st))
         in if truthy (fst r0) then Inr (Pos (the (fst r0)), snd r0)
            else
              (let st1 = snd r0
               in case group m ''list_2'' of Inl e \<Rightarrow> Inl e | Inr None \<Rightarrow> Inl TypeError
                  | Inr (Some marker) \<Rightarrow>
                    if 1 < length marker
                    then (case py_int (butlast marker) of Inl e \<Rightarrow> Inl e
                          | Inr start \<Rightarrow>
                            if start \<noteq> 1
                            then (case append_paragraph st1 of (end_pos, st2) \<Rightarrow>
                                    if truthy end_pos then Inr (Pos (the end_pos), st2)
                                    else parse_list_body P m st2
                                           [(''ordered'', ABool True), (''start'', AInt start)])
                            else parse_list_body P m st1 [(''ordered'', ABool True)])
                    else parse_list_body P m st1 [(''ordered'', ABool False)])))"

section \<open>Block quotes and the driver\<close>

text \<open>
  \<^verbatim>\<open>_BLOCK_QUOTE_TRIM = re.compile(r'^ {0,1}', flags=re.M)\<close> and
  \<^verbatim>\<open>_BLOCK_QUOTE_LEADING = re.compile(r'^ *>', flags=re.M)\<close>
\<close>

definition BLOCK_QUOTE_TRIM :: regex where
  "BLOCK_QUOTE_TRIM = re_compile (Seq Bol (Rep True 0 (Some 1) sp))"

definition BLOCK_QUOTE_LEADING :: regex where
  "BLOCK_QUOTE_LEADING = re_compile (seqs [Bol, star sp, Cls ''>''])"

text \<open>
  What both branches of \<^verbatim>\<open>parse_block_quote\<close> do with the lines matched by
  \<^verbatim>\<open>STRICT_BLOCK_QUOTE\<close>: the markers are removed, then a leading tab is expanded, then
  one space is removed.
\<close>

definition dequote :: "string \<Rightarrow> string" where
  "dequote q =
     re_sub_empty BLOCK_QUOTE_TRIM (expand_leading_tab (re_sub_empty BLOCK_QUOTE_LEADING q) 3)"

text \<open>The handlers that do not call the parser again, by the name of their rule.\<close>

definition leaf_handler :: "ext \<Rightarrow> string \<Rightarrow> match \<Rightarrow> state \<Rightarrow> pyerr + (nat option \<times> state)" where
  "leaf_handler X name m st =
     (if name = ''blank_line'' then parse_blank_line m st
      else if name = ''fenced_code'' then parse_fenced_code X m st
      else if name = ''indent_code'' then parse_indent_code X m st
      else if name = ''axt_heading'' then parse_axt_heading m st
      else if name = ''setex_heading'' then parse_setex_heading m st
      else if name = ''thematic_break'' then parse_thematic_break m st
      else if name = ''ref_link'' then parse_ref_link X m st
      else if name = ''raw_html'' then parse_raw_html X m st
      else Inl AttributeError)"

definition with_parser :: "parser \<Rightarrow> pyerr + (nat option \<times> state) \<Rightarrow>
    pyerr + (nat option \<times> parser \<times> state)" where
  "with_parser P r = (case r of Inl e \<Rightarrow> Inl e | Inr (v, st) \<Rightarrow> Inr (v, P, st))"

text \<open>
  The rules of the children of a block quote (\<^verbatim>\<open>parse_block_quote\<close>, after the child
  state is made).
\<close>

definition block_quote_child_rules :: "parser \<Rightarrow> state \<Rightarrow> pyerr + string list" where
  "block_quote_child_rules P st =
     (if max_nested_level P \<le> int (depth st)
      then remove_first (block_quote_rules P) ''block_quote''
      else Inr (block_quote_rules P))"

text \<open>
  The methods that call each other: \<^verbatim>\<open>parse_method\<close>, \<^verbatim>\<open>parse_block_quote\<close> with
  the loop of its second branch (\<open>quote_lines\<close>), and \<^verbatim>\<open>parse\<close> with its loop
  (\<open>parse_loop\<close>). Nothing in the code bounds the number of iterations of the driver's loop
  by itself, so every call takes fuel, and a call with no fuel left is cut short.

  \<^verbatim>\<open>parse_method(m, state)\<close> evaluates \<^verbatim>\<open>m.lastgroup\<close> first: AttributeError when
  \<open>m\<close> is \<^verbatim>\<open>None\<close>. Then it looks the name up in \<^verbatim>\<open>self.__methods\<close> (KeyError) and
  calls what it finds with two arguments; the functions stored by \<^verbatim>\<open>register_rule\<close>
  take one (TypeError).

  In \<open>quote_lines\<close>, the line that follows \<^verbatim>\<open>if end_pos: break\<close> is
  \<^verbatim>\<open>pos = self.find_line_end()\<close>; the parser has no such method (the state has), so
  AttributeError is raised there.

  In \<open>parse_loop\<close>, the branch for a handler that returns nothing evaluates
  \<^verbatim>\<open>state.get_text(pos)\<close>, and no name \<^verbatim>\<open>pos\<close> is bound in \<^verbatim>\<open>parse\<close> or in the
  module: NameError.
\<close>

definition parse_method_body ::
    "(parser \<Rightarrow> match \<Rightarrow> state \<Rightarrow> pyerr + (nat option \<times> parser \<times> state)) \<Rightarrow>
     ext \<Rightarrow> parser \<Rightarrow> match option \<Rightarrow> state \<Rightarrow> pyerr + (nat option \<times> parser \<times> state)" where
  "parse_method_body self_parse_block_quote X P mo st =
     (case mo of
        None \<Rightarrow> Inl AttributeError
      | Some m \<Rightarrow>
          (case lastgroup m of
             None \<Rightarrow> Inl KeyError
           | Some name \<Rightarrow>
               (case map_of (methods P) name of
                  None \<Rightarrow> Inl KeyError
                | Some (Registered f) \<Rightarrow> Inl TypeError
                | Some (Builtin b) \<Rightarrow>
                    if b = ''block_quote'' then self_parse_block_quote P m st
                    else with_parser P (leaf_handler X b m st))))"

definition parse_block_quote_body ::
    "(parser \<Rightarrow> regex \<Rightarrow> bool \<Rightarrow> string \<Rightarrow> state \<Rightarrow>
        pyerr + (nat option \<times> string \<times> parser \<times> state)) \<Rightarrow>
     (parser \<Rightarrow> state \<Rightarrow> string list option \<Rightarrow> pyerr + (parser \<times> state)) \<Rightarrow>
     parser \<Rightarrow> match \<Rightarrow> state \<Rightarrow> pyerr + (nat option \<times> parser \<times> state)" where
  "parse_block_quote_body lazy_lines self_parse P m st =
     (case group m ''quote_1'' of Inl e \<Rightarrow> Inl e | Inr None \<Rightarrow> Inl TypeError
      | Inr (Some q) \<Rightarrow>
        (let text0 = re_sub_empty BLOCK_QUOTE_TRIM (expand_leading_tab (q @ [nl]) 3)
         in case compile_sc P (Some [''blank_line'', ''indent_code'', ''fenced_code'']) of
              Inl e \<Rightarrow> Inl e
            | Inr (sc1, P1) \<Rightarrow>
                (let require_marker = (re_match sc1 text0 0 \<noteq> None);
                     st1 = st\<lparr>cursor := m_end m + 1\<rparr>
                 in case (if require_marker
                          then (case state_match STRICT_BLOCK_QUOTE st1 of
                                  Some m1 \<Rightarrow>
                                    Inr (None,
                                         text0 @ dequote (slice (src st1) (m_start m1) (m_end m1)),
                                         P1, st1\<lparr>cursor := m_end m1\<rparr>)
                                | None \<Rightarrow> Inr (None, text0, P1, st1))
                          else (case compile_sc P1 (Some [''blank_line'', ''thematic_break'',
                                                         ''fenced_code'', ''block_html'']) of
                                  Inl e \<Rightarrow> Inl e
                                | Inr (break_sc, P2) \<Rightarrow>
                                    lazy_lines P2 break_sc False text0 st1)) of
                      Inl e \<Rightarrow> Inl e
                    | Inr (end_pos, text1, P3, st2) \<Rightarrow>
                        (let child = process (expand_tab text1)
                                       ((child_state st2)\<lparr>in_block := ''block_quote''\<rparr>)
                         in case block_quote_child_rules P3 st2 of
                              Inl e \<Rightarrow> Inl e
                            | Inr rs \<Rightarrow>
                                (case self_parse P3 child (Some rs) of
                                   Inl e \<Rightarrow> Inl e
                                 | Inr (P4, child') \<Rightarrow>
                                     (let token = Token ''block_quote'' None None None
                                                    (Some (tokens child')) None None;
                                          st3 = st2\<lparr>ref_links := ref_links child'\<rparr>
                                      in if truthy end_pos
                                         then Inr (end_pos, P4, prepend_token token st3)
                                         else Inr (Some (cursor st3), P4,
                                                   append_token token st3)))))))"

definition quote_lines_body ::
    "(parser \<Rightarrow> regex \<Rightarrow> bool \<Rightarrow> string \<Rightarrow> state \<Rightarrow>
        pyerr + (nat option \<times> string \<times> parser \<times> state)) \<Rightarrow>
     (parser \<Rightarrow> match option \<Rightarrow> state \<Rightarrow> pyerr + (nat option \<times> parser \<times> state)) \<Rightarrow>
     parser \<Rightarrow> regex \<Rightarrow> bool \<Rightarrow> string \<Rightarrow> state \<Rightarrow>
     pyerr + (nat option \<times> string \<times> parser \<times> state)" where
  "quote_lines_body continue self_parse_method P break_sc prev_blank_line text0 st =
     (if cursor st < cursor_max st
      then (case state_match STRICT_BLOCK_QUOTE st of
              Some m \<Rightarrow>
                (let quote = dequote (slice (src st) (m_start m) (m_end m))
                 in continue P break_sc
                      (if strip quote = [] then True
                       else re_search LINE_BLANK_END quote 0 \<noteq> None)
                      (text0 @ quote) (st\<lparr>cursor := m_end m\<rparr>))
            | None \<Rightarrow>
                if prev_blank_line then Inr (None, text0, P, st)
                else (case self_parse_method P (state_match break_sc st) st of
                        Inl e \<Rightarrow> Inl e
                      | Inr (end_pos, P1, st1) \<Rightarrow>
                          if truthy end_pos then Inr (end_pos, text0, P1, st1)
                          else Inl AttributeError))
      else Inr (None, text0, P, st))"

definition parse_body ::
    "(parser \<Rightarrow> regex \<Rightarrow> state \<Rightarrow> pyerr + (parser \<times> state)) \<Rightarrow>
     parser \<Rightarrow> state \<Rightarrow> string list option \<Rightarrow> pyerr + (parser \<times> state)" where
  "parse_body loop P st rules0 =
     (case compile_sc P rules0 of
        Inl e \<Rightarrow> Inl e
      | Inr (sc0, P1) \<Rightarrow>
          (case loop P1 sc0 st of
             Inl e \<Rightarrow> Inl e
           | Inr (P2, st1) \<Rightarrow>
               if cursor st1 < cursor_max st1
               then Inr (P2, (add_paragraph (drop (cursor st1) (src st1)) st1)
                               \<lparr>cursor := cursor_max st1\<rparr>)
               else Inr (P2, st1)))"

definition parse_loop_body ::
    "(parser \<Rightarrow> match option \<Rightarrow> state \<Rightarrow> pyerr + (nat option \<times> parser \<times> state)) \<Rightarrow>
     (parser \<Rightarrow> regex \<Rightarrow> state \<Rightarrow> pyerr + (parser \<times> state)) \<Rightarrow>
     parser \<Rightarrow> regex \<Rightarrow> state \<Rightarrow> pyerr + (parser \<times> state)" where
  "parse_loop_body self_parse_method continue P sc0 st =
     (if cursor st < cursor_max st
      then (case re_search sc0 (src st) (cursor st) of
              None \<Rightarrow> Inr (P, st)
            | Some m \<Rightarrow>
                (let st1 = (if cursor st < m_start m
                            then (add_paragraph (get_text st (m_start m)) st)
                                   \<lparr>cursor := m_start m\<rparr>
                            else st)
                 in case self_parse_method P (Some m) st1 of
                      Inl e \<Rightarrow> Inl e
                    | Inr (end_pos, P1, st2) \<Rightarrow>
                        if truthy end_pos
                        then continue P1 sc0 (st2\<lparr>cursor := the end_pos\<rparr>)
                        else Inl NameError))
      else Inr (P, st))"

text \<open>
  The five are tied together by recursion on the fuel. \<open>bound n X\<close> is the object
  \<^verbatim>\<open>self\<close> as the bodies above see it when \<open>n\<close> units of fuel are left: the five
  methods, each of which gets the others (and, for a loop, itself) with one unit less.
\<close>

record bound_methods =
  self_parse_method :: "parser \<Rightarrow> match option \<Rightarrow> state \<Rightarrow> pyerr + (nat option \<times> parser \<times> state)"
  self_parse_block_quote :: "parser \<Rightarrow> match \<Rightarrow> state \<Rightarrow> pyerr + (nat option \<times> parser \<times> state)"
  self_quote_lines :: "parser \<Rightarrow> regex \<Rightarrow> bool \<Rightarrow> string \<Rightarrow> state \<Rightarrow>
      pyerr + (nat option \<times> string \<times> parser \<times> state)"
  self_parse :: "parser \<Rightarrow> state \<Rightarrow> string list option \<Rightarrow> pyerr + (parser \<times> state)"
  self_parse_loop :: "parser \<Rightarrow> regex \<Rightarrow> state \<Rightarrow> pyerr + (parser \<times> state)"

primrec bound :: "nat \<Rightarrow> ext \<Rightarrow> bound_methods" where
  "bound 0 X =
     \<lparr>self_parse_method = (\<lambda>P mo st. Inl OutOfFuel),
      self_parse_block_quote = (\<lambda>P m st. Inl OutOfFuel),
      self_quote_lines = (\<lambda>P break_sc prev_blank_line text0 st. Inl OutOfFuel),
      self_parse = (\<lambda>P st rules0. Inl OutOfFuel),
      self_parse_loop = (\<lambda>P sc0 st. Inl OutOfFuel)\<rparr>"
| "bound (Suc n) X =
     \<lparr>self_parse_method = parse_method_body (self_parse_block_quote (bound n X)) X,
      self_parse_block_quote =
        parse_block_quote_body (self_quote_lines (bound n X)) (self_parse (bound n X)),
      self_quote_lines =
        quote_lines_body (self_quote_lines (bound n X)) (self_parse_method (bound n X)),
      self_parse = parse_body (self_parse_loop (bound n X)),
      self_parse_loop =
        parse_loop_body (self_parse_method (bound n X)) (self_parse_loop (bound n X))\<rparr>"

definition parse_method :: "nat \<Rightarrow> ext \<Rightarrow> parser \<Rightarrow> match option \<Rightarrow> state \<Rightarrow>
    pyerr + (nat option \<times> parser \<times> state)" where
  "parse_method n X = self_parse_method (bound n X)"

definition parse_block_quote :: "nat \<Rightarrow> ext \<Rightarrow> parser \<Rightarrow> match \<Rightarrow> state \<Rightarrow>
    pyerr + (nat option \<times> parser \<times> state)" where
  "parse_block_quote n X = self_parse_block_quote (bound n X)"

definition quote_lines :: "nat \<Rightarrow> ext \<Rightarrow> parser \<Rightarrow> regex \<Rightarrow> bool \<Rightarrow> string \<Rightarrow> state \<Rightarrow>
    pyerr + (nat option \<times> string \<times> parser \<times> state)" where
  "quote_lines n X = self_quote_lines (bound n X)"

definition parse :: "nat \<Rightarrow> ext \<Rightarrow> parser \<Rightarrow> state \<Rightarrow> string list option \<Rightarrow>
    pyerr + (parser \<times> state)" where
  "parse n X = self_parse (bound n X)"

definition parse_loop :: "nat \<Rightarrow> ext \<Rightarrow> parser \<Rightarrow> regex \<Rightarrow> state \<Rightarrow> pyerr + (parser \<times> state)" where
  "parse_loop n X = self_parse_loop (bound n X)"

section \<open>Running the model\<close>

text \<open>
  A stand-in for the imported helpers, to run the model on concrete inputs: the string
  functions change nothing, a link destination is the run of characters up to the next
  blank or newline, titles are not read, a label is a run of characters other than
  brackets and a tag name a run of letters.
\<close>

definition plain_href :: "string \<Rightarrow> nat \<Rightarrow> (string \<times> nat) option" where
  "plain_href s pos =
     (let r = drop pos s;
          k = length (takeWhile (\<lambda>c. c \<in> set [CHR '' '', tab]) r);
          h = takeWhile (\<lambda>c. c \<notin> set py_space) (drop k r)
      in if h = [] then None else Some (h, pos + k + length h))"

definition plain_ext :: ext where
  "plain_ext =
     \<lparr>unikey = (\<lambda>s. s), escape = (\<lambda>s. s), escape_url = (\<lambda>s. s), safe_entity = (\<lambda>s. s),
      strip_end = (\<lambda>s. s), unescape_char = (\<lambda>s. s),
      parse_link_href = plain_href,
      parse_link_title = (\<lambda>s p q. (None, None)),
      LINK_LABEL = mtch (Rep True 0 (Some 500) (NCls ''[]'')),
      HTML_TAGNAME = mtch (plus (Cls ''abcdefghijklmnopqrstuvwxyz'')),
      HTML_ATTRIBUTES = mtch Eps\<rparr>"

text \<open>The exception that a run ended with, if it did.\<close>

definition error_of :: "pyerr + 'a \<Rightarrow> pyerr option" where
  "error_of r = (case r of Inl e \<Rightarrow> Some e | Inr v \<Rightarrow> None)"

text \<open>Sample documents: a fenced block with an info string, and an indented block.\<close>

definition fence_doc :: string where
  "fence_doc = [CHR 0x60, CHR 0x60, CHR 0x60] @ ''py'' @ nl # ''x'' @ nl #
               [CHR 0x60, CHR 0x60, CHR 0x60, CHR 0x60] @ [nl]"

definition fence_doc_match :: match where
  "fence_doc_match =
     \<lparr>m_start = 0, m_end = 5,
      m_caps = [(3, ''py''), (2, [CHR 0x60, CHR 0x60, CHR 0x60]), (1, [])],
      m_names = [(''fenced_1'', 1), (''fenced_2'', 2), (''fenced_3'', 3)], m_groups = 3\<rparr>"

definition indent_doc :: string where
  "indent_doc = ''    a'' @ [nl]"

definition indent_doc_match :: match where
  "indent_doc_match =
     \<lparr>m_start = 0, m_end = 6, m_caps = [(1, ''    a'' @ [nl])],
      m_names = [(''indent_code'', 1)], m_groups = 2\<rparr>"

text \<open>
  Sample documents for the driver: a quote with a line that lacks the marker, a setext
  underline with no paragraph before it, a thematic break, and a backtick fence whose info
  string holds a backtick.
\<close>

definition quote_doc :: string where
  "quote_doc = ''> foo'' @ nl # ''bar'' @ [nl]"

definition underline_doc :: string where
  "underline_doc = ''==='' @ [nl]"

definition break_doc :: string where
  "break_doc = ''---'' @ [nl]"

definition fence_info_doc :: string where
  "fence_info_doc = [CHR 0x60, CHR 0x60, CHR 0x60] @ '' a'' @ [CHR 0x60] @ ''b'' @ [nl]"

section \<open>Properties\<close>

subsection \<open>Fenced code\<close>

lemma fence_doc_match_eq:
  "re_match (re_compile FENCED_CODE) fence_doc 0 = Some fence_doc_match"
  by code_simp

lemma indent_doc_match_eq:
  "re_match (re_compile (Grp 0 (Some ''indent_code'') INDENT_CODE)) indent_doc 0 =
     Some indent_doc_match"
  by code_simp

lemma fenced_code_emits:
  "parse_fenced_code X m st = Inr (r, st') \<Longrightarrow>
     (r = None \<and> st' = st) \<or>
     (\<exists>tok. tokens st' = tokens st @ [tok] \<and> tok_type tok = ''block_code'' \<and>
            tok_fenced tok = Some True \<and> tok_raw tok \<noteq> None)"
  by (auto simp: parse_fenced_code_def fenced_token_def append_token_def Let_def
        split: sum.splits option.splits if_splits)

lemma indent_code_emits:
  "parse_indent_code X m st = Inr (r, st') \<Longrightarrow> \<not> is_paragraph (last_token st) \<Longrightarrow>
     \<exists>tok. tokens st' = tokens st @ [tok] \<and> tok_type tok = ''block_code'' \<and>
           tok_fenced tok = None \<and> tok_raw tok \<noteq> None"
  by (auto simp: parse_indent_code_def append_paragraph_def truthy_def append_token_def Let_def
        split: sum.splits option.splits if_splits)

text \<open>
  C10. Every token that the handler of fenced code emits is a \<^verbatim>\<open>block_code\<close> token with
  the field \<^verbatim>\<open>fenced\<close> set to true beside \<^verbatim>\<open>raw\<close> (and \<^verbatim>\<open>attrs\<close>, when there is an
  info string); when the handler returns nothing it has emitted nothing. The
  \<^verbatim>\<open>block_code\<close> token that the handler of indented code emits has no such field.
\<close>

theorem fenced_code_token_fenced:
  "(parse_fenced_code X m st = Inr (r, st') \<longrightarrow>
      (r = None \<and> st' = st) \<or>
      (\<exists>tok. tokens st' = tokens st @ [tok] \<and> tok_type tok = ''block_code'' \<and>
             tok_fenced tok = Some True \<and> tok_raw tok \<noteq> None)) \<and>
   (parse_indent_code X m2 st2 = Inr (r2, st2') \<and> \<not> is_paragraph (last_token st2) \<longrightarrow>
      (\<exists>tok. tokens st2' = tokens st2 @ [tok] \<and> tok_type tok = ''block_code'' \<and>
             tok_fenced tok = None \<and> tok_raw tok \<noteq> None))"
  using fenced_code_emits [of X m st r st'] indent_code_emits [of X m2 st2 r2 st2']
  by blast

theorem fenced_code_token_fenced_witness:
  "parse_fenced_code plain_ext fence_doc_match (root_state fence_doc) =
     Inr (Some 13, (root_state fence_doc)\<lparr>tokens :=
       [Token ''block_code'' (Some (nl # ''x'' @ [nl])) None (Some [(''info'', AStr ''py'')])
          None (Some True) None]\<rparr>) \<and>
   parse_indent_code plain_ext indent_doc_match (root_state indent_doc) =
     Inr (Some 6, (root_state indent_doc)\<lparr>tokens :=
       [Token ''block_code'' (Some ''a'') None None None None None]\<rparr>) \<and>
   \<not> is_paragraph (last_token (root_state indent_doc)) \<and>
   (\<exists>tok. [Token ''block_code'' (Some (nl # ''x'' @ [nl])) None (Some [(''info'', AStr ''py'')])
             None (Some True) None] = [tok] \<and> tok_fenced tok = Some True) \<and>
   (\<exists>tok. [Token ''block_code'' (Some ''a'') None None None None None] = [tok] \<and>
          tok_fenced tok = None)"
proof -
  have f: "parse_fenced_code plain_ext fence_doc_match (root_state fence_doc) =
     Inr (Some 13, (root_state fence_doc)\<lparr>tokens :=
       [Token ''block_code'' (Some (nl # ''x'' @ [nl])) None (Some [(''info'', AStr ''py'')])
          None (Some True) None]\<rparr>)"
    by code_simp
  have i: "parse_indent_code plain_ext indent_doc_match (root_state indent_doc) =
     Inr (Some 6, (root_state indent_doc)\<lparr>tokens :=
       [Token ''block_code'' (Some ''a'') None None None None None]\<rparr>)"
    by code_simp
  have p: "\<not> is_paragraph (last_token (root_state indent_doc))"
    by (simp add: is_paragraph_def last_token_def root_state_def)
  have "\<exists>tok. [Token ''block_code'' (Some (nl # ''x'' @ [nl])) None (Some [(''info'', AStr ''py'')])
             None (Some True) None] = [tok] \<and> tok_fenced tok = Some True"
    by simp
  moreover have "\<exists>tok. [Token ''block_code'' (Some ''a'') None None None None None] = [tok] \<and>
          tok_fenced tok = None"
    by simp
  moreover note fenced_code_token_fenced [of plain_ext fence_doc_match "root_state fence_doc" "Some 13"
      "(root_state fence_doc)\<lparr>tokens :=
       [Token ''block_code'' (Some (nl # ''x'' @ [nl])) None (Some [(''info'', AStr ''py'')])
          None (Some True) None]\<rparr>" indent_doc_match "root_state indent_doc" "Some 6"
      "(root_state indent_doc)\<lparr>tokens :=
       [Token ''block_code'' (Some ''a'') None None None None None]\<rparr>"]
  ultimately show ?thesis using f i p by blast
qed

subsection \<open>The fuel\<close>

lemma parse_method_fuel [code]:
  "parse_method 0 X P mo st = Inl OutOfFuel"
  "parse_method (Suc n) X P mo st = parse_method_body (parse_block_quote n X) X P mo st"
  by (simp_all add: parse_method_def parse_block_quote_def)

lemma parse_block_quote_fuel [code]:
  "parse_block_quote 0 X P m st = Inl OutOfFuel"
  "parse_block_quote (Suc n) X P m st =
     parse_block_quote_body (quote_lines n X) (parse n X) P m st"
  by (simp_all add: parse_block_quote_def quote_lines_def parse_def)

lemma quote_lines_fuel [code]:
  "quote_lines 0 X P break_sc prev_blank_line text0 st = Inl OutOfFuel"
  "quote_lines (Suc n) X P break_sc prev_blank_line text0 st =
     quote_lines_body (quote_lines n X) (parse_method n X) P break_sc prev_blank_line text0 st"
  by (simp_all add: quote_lines_def parse_method_def)

lemma parse_fuel [code]:
  "parse 0 X P st rules0 = Inl OutOfFuel"
  "parse (Suc n) X P st rules0 = parse_body (parse_loop n X) P st rules0"
  by (simp_all add: parse_def parse_loop_def)

lemma parse_loop_fuel [code]:
  "parse_loop 0 X P sc0 st = Inl OutOfFuel"
  "parse_loop (Suc n) X P sc0 st =
     parse_loop_body (parse_method n X) (parse_loop n X) P sc0 st"
  by (simp_all add: parse_loop_def parse_method_def)

lemma error_of_Inl: "error_of r = Some e \<Longrightarrow> r = Inl e"
  by (cases r) (simp_all add: error_of_def)

subsection \<open>Block quotes\<close>

text \<open>
  C1. For the document \<^verbatim>\<open>"> foo\nbar\n"\<close> the specification expects one block quote
  with the paragraph \<^verbatim>\<open>"foo\nbar"\<close>. The parser with its defaults does not get there: the
  line \<^verbatim>\<open>bar\<close> has no marker and matches no rule that ends a quote, the loop hands the
  missing match to \<^verbatim>\<open>parse_method\<close>, and the run ends with AttributeError, whatever
  the imported helpers are and however much fuel there is.
\<close>

theorem lazy_continuation_raises:
  "parse (Suc (Suc (Suc (Suc (Suc (Suc n)))))) X (default_parser X) (root_state quote_doc) None =
     Inl AttributeError"
proof -
  have "error_of (parse (Suc (Suc (Suc (Suc (Suc (Suc n)))))) X (default_parser X)
          (root_state quote_doc) None) = Some AttributeError"
    by code_simp
  then show ?thesis by (rule error_of_Inl)
qed

subsection \<open>The driver\<close>

lemma driver_no_match_raises:
  assumes "cursor st < cursor_max st"
    and "re_search sc0 (src st) (cursor st) = Some m"
    and "m_start m \<le> cursor st"
    and "pm P (Some m) st = Inr (end_pos, P1, st2)"
    and "\<not> truthy end_pos"
  shows "parse_loop_body pm continue P sc0 st = Inl NameError"
  using assms by (simp add: parse_loop_body_def Let_def)

text \<open>
  C6. The specification expects the driver to move on by one line when a handler returns
  no position. The branch of the driver that should do so reads the name \<^verbatim>\<open>pos\<close>, which
  is bound nowhere, and the run ends with NameError: for a thematic break at the start of a
  document (the rule of the setext underline comes first and its handler returns nothing),
  and for a backtick fence whose info string holds a backtick.
\<close>

theorem driver_fallback_raises:
  "parse (Suc (Suc (Suc n))) X (default_parser X) (root_state break_doc) None = Inl NameError \<and>
   parse (Suc (Suc (Suc n))) X (default_parser X) (root_state fence_info_doc) None =
     Inl NameError"
proof -
  have "error_of (parse (Suc (Suc (Suc n))) X (default_parser X) (root_state break_doc) None) =
          Some NameError"
    by code_simp
  moreover have "error_of (parse (Suc (Suc (Suc n))) X (default_parser X)
          (root_state fence_info_doc) None) = Some NameError"
    by code_simp
  ultimately show ?thesis by (simp add: error_of_Inl)
qed

subsection \<open>Setext headings\<close>

lemma setex_rewrites_paragraph:
  assumes "is_paragraph (last_token st)" and "group m ''setext_1'' = Inr g"
  shows "\<exists>ty rw tx at ch fe li.
           last (tokens st) = Token ty rw tx at ch fe li \<and>
           parse_setex_heading m st =
             Inr (Some (m_end m + 1),
                  st\<lparr>tokens := butlast (tokens st) @
                    [Token ''heading'' rw tx
                       (Some [(''level'', AInt (if g = Some ''='' then 1 else 2))]) ch fe li]\<rparr>)"
  using assms by (cases "last (tokens st)") (simp add: parse_setex_heading_def)

lemma setex_without_paragraph:
  "\<not> is_paragraph (last_token st) \<Longrightarrow> parse_setex_heading m st = Inr (None, st)"
  by (simp add: parse_setex_heading_def)

text \<open>
  C2. When the last token is a paragraph, the handler of the setext underline rewrites it
  into a heading where it is (\<open>setex_rewrites_paragraph\<close>); otherwise it returns nothing
  (\<open>setex_without_paragraph\<close>). The specification then expects the underline to become
  paragraph text. The driver raises NameError instead: here for an underline at the start
  of a document.
\<close>

theorem setex_without_paragraph_raises:
  "parse (Suc (Suc (Suc n))) X (default_parser X) (root_state underline_doc) None =
     Inl NameError"
proof -
  have "error_of (parse (Suc (Suc (Suc n))) X (default_parser X) (root_state underline_doc)
          None) = Some NameError"
    by code_simp
  then show ?thesis by (rule error_of_Inl)
qed

end
